theory Spec2Isabelle
  imports Complex_Main
begin

section \<open>JavaScript values\<close>

text \<open>
  A JavaScript number is modelled by the real it denotes; the comparisons of the source
  (\<open><\<close>, \<open>>\<close> against each other and against the constants 30, 70, 0) agree with the
  comparisons of the reals on every finite double. A field that may be \<open>null\<close> or
  \<open>undefined\<close> is an \<open>option\<close>. NaN is outside the model.
\<close>

text \<open>Truthiness of a number, as tested by \<open>if (x)\<close>: zero is falsy.\<close>

definition truthy :: "real \<Rightarrow> bool" where
  "truthy x = (x \<noteq> 0)"

text \<open>
  \<open>a > b\<close> and \<open>a < b\<close> where either side may be \<open>undefined\<close>: \<open>undefined\<close>
  converts to NaN, and every comparison with NaN is false.
\<close>

definition js_gt :: "real option \<Rightarrow> real option \<Rightarrow> bool" where
  "js_gt a b = (case a of None \<Rightarrow> False
                | Some x \<Rightarrow> (case b of None \<Rightarrow> False | Some y \<Rightarrow> x > y))"

definition js_lt :: "real option \<Rightarrow> real option \<Rightarrow> bool" where
  "js_lt a b = (case a of None \<Rightarrow> False
                | Some x \<Rightarrow> (case b of None \<Rightarrow> False | Some y \<Rightarrow> x < y))"

section \<open>CryptoService: trading signals\<close>

text \<open>
  One point of the MACD series of the indicator library: \<open>signal\<close> and \<open>histogram\<close>
  are \<open>undefined\<close> until the signal line has enough samples.
\<close>

record macd_output =
  MACD :: "real option"
  signal :: "real option"
  histogram :: "real option"

record bollinger_output =
  upper :: real
  middle :: real
  lower :: real

text \<open>
  The object built by \<open>calculateTechnicalIndicators\<close>: every headline field starts as
  \<open>null\<close> (\<open>None\<close>).
\<close>

record technical_analysis =
  rsi :: "real option"
  macd :: "macd_output option"
  sma20 :: "real option"
  ema20 :: "real option"
  bollingerBands :: "bollinger_output option"

datatype trend = BULLISH | BEARISH | NEUTRAL

text \<open>
  The three values of \<open>overallSignal\<close> are string literals: \<open>'HOLD'\<close>, and \<open>'BUY '\<close> and
  \<open>'SELL '\<close> each followed by a circle emoji. A string is the list of its bytes, and the
  emoji are given byte by byte as they stand in the source file.
\<close>

definition HOLD :: string where
  "HOLD = ''HOLD''"

definition BUY :: string where
  "BUY = ''BUY '' @ [CHR 0xC3, CHR 0xB0, CHR 0xC5, CHR 0xB8, CHR 0xC5, CHR 0xB8,
                     CHR 0xC2, CHR 0xA2]"

definition SELL :: string where
  "SELL = ''SELL '' @ [CHR 0xC3, CHR 0xB0, CHR 0xC5, CHR 0xB8, CHR 0xE2, CHR 0x80,
                       CHR 0x9D, CHR 0xC2, CHR 0xB4]"

record signal_votes =
  rsi_vote :: trend
  macd_vote :: trend
  ma_vote :: trend
  volume_vote :: trend

record signal_set =
  overallSignal :: string
  overallTrend :: trend
  signals :: signal_votes
  confidence :: real

text \<open>
  The local state of \<open>generateSignals\<close>: the object under construction and the two
  counters \<open>bullishCount\<close> and \<open>bearishCount\<close>.
\<close>

record gen_state =
  sigs :: signal_set
  bullishCount :: nat
  bearishCount :: nat

definition initial_gen_state :: gen_state where
  "initial_gen_state =
     \<lparr>sigs = \<lparr>overallSignal = HOLD, overallTrend = NEUTRAL,
              signals = \<lparr>rsi_vote = NEUTRAL, macd_vote = NEUTRAL,
                         ma_vote = NEUTRAL, volume_vote = NEUTRAL\<rparr>,
              confidence = 0\<rparr>,
      bullishCount = 0, bearishCount = 0\<rparr>"

definition set_rsi_vote :: "trend \<Rightarrow> gen_state \<Rightarrow> gen_state" where
  "set_rsi_vote t g = g\<lparr>sigs := (sigs g)\<lparr>signals := (signals (sigs g))\<lparr>rsi_vote := t\<rparr>\<rparr>\<rparr>"

definition set_macd_vote :: "trend \<Rightarrow> gen_state \<Rightarrow> gen_state" where
  "set_macd_vote t g = g\<lparr>sigs := (sigs g)\<lparr>signals := (signals (sigs g))\<lparr>macd_vote := t\<rparr>\<rparr>\<rparr>"

definition set_ma_vote :: "trend \<Rightarrow> gen_state \<Rightarrow> gen_state" where
  "set_ma_vote t g = g\<lparr>sigs := (sigs g)\<lparr>signals := (signals (sigs g))\<lparr>ma_vote := t\<rparr>\<rparr>\<rparr>"

definition inc_bullish :: "gen_state \<Rightarrow> gen_state" where
  "inc_bullish g = g\<lparr>bullishCount := bullishCount g + 1\<rparr>"

definition inc_bearish :: "gen_state \<Rightarrow> gen_state" where
  "inc_bearish g = g\<lparr>bearishCount := bearishCount g + 1\<rparr>"

text \<open>\<open>// RSI Signal\<close>: the block guarded by \<open>if (technicalAnalysis.rsi)\<close>.\<close>

definition rsi_signal :: "technical_analysis \<Rightarrow> gen_state \<Rightarrow> gen_state" where
  "rsi_signal ta g =
     (case rsi ta of
        None \<Rightarrow> g
      | Some r \<Rightarrow>
          if truthy r then
            (if r < 30 then inc_bullish (set_rsi_vote BULLISH g)
             else if r > 70 then inc_bearish (set_rsi_vote BEARISH g)
             else g)
          else g)"

text \<open>\<open>// MACD Signal\<close>: an object is always truthy, so the guard tests for \<open>null\<close> only.\<close>

definition macd_signal :: "technical_analysis \<Rightarrow> gen_state \<Rightarrow> gen_state" where
  "macd_signal ta g =
     (case macd ta of
        None \<Rightarrow> g
      | Some m \<Rightarrow>
          if js_gt (histogram m) (Some 0) \<and> js_gt (MACD m) (signal m)
            then inc_bullish (set_macd_vote BULLISH g)
          else if js_lt (histogram m) (Some 0)
            then inc_bearish (set_macd_vote BEARISH g)
          else g)"

text \<open>\<open>// Moving Average Signal\<close>: guarded by \<open>ema20 && sma20\<close>.\<close>

definition ma_signal :: "technical_analysis \<Rightarrow> gen_state \<Rightarrow> gen_state" where
  "ma_signal ta g =
     (case ema20 ta of
        None \<Rightarrow> g
      | Some e \<Rightarrow>
          (case sma20 ta of
             None \<Rightarrow> g
           | Some s \<Rightarrow>
               if truthy e \<and> truthy s then
                 (if e > s then inc_bullish (set_ma_vote BULLISH g)
                  else inc_bearish (set_ma_vote BEARISH g))
               else g))"

text \<open>\<open>// Determine overall signal\<close>.\<close>

definition overall_signal :: "gen_state \<Rightarrow> signal_set" where
  "overall_signal g =
     (if bullishCount g > bearishCount g then
        (sigs g)\<lparr>overallSignal := BUY, overallTrend := BULLISH,
                 confidence := (real (bullishCount g) / 3) * 100\<rparr>
      else if bearishCount g > bullishCount g then
        (sigs g)\<lparr>overallSignal := SELL, overallTrend := BEARISH,
                 confidence := (real (bearishCount g) / 3) * 100\<rparr>
      else sigs g)"

definition generateSignals :: "technical_analysis \<Rightarrow> signal_set" where
  "generateSignals ta =
     overall_signal (ma_signal ta (macd_signal ta (rsi_signal ta initial_gen_state)))"


section \<open>Strings\<close>

text \<open>
  Strings are lists of bytes; \<open>toUpperCase\<close> and \<open>toLowerCase\<close> are modelled on the
  ASCII letters, where they shift the code by 32, and leave every other byte alone.
\<close>

definition toUpperCase_char :: "char \<Rightarrow> char" where
  "toUpperCase_char c =
     (let n = (of_char c :: nat) in if 97 \<le> n \<and> n \<le> 122 then char_of (n - 32) else c)"

definition toLowerCase_char :: "char \<Rightarrow> char" where
  "toLowerCase_char c =
     (let n = (of_char c :: nat) in if 65 \<le> n \<and> n \<le> 90 then char_of (n + 32) else c)"

definition toUpperCase :: "string \<Rightarrow> string" where
  "toUpperCase s = map toUpperCase_char s"

definition toLowerCase :: "string \<Rightarrow> string" where
  "toLowerCase s = map toLowerCase_char s"

text \<open>\<open>s.includes(k)\<close>: \<open>k\<close> occurs in \<open>s\<close> as a contiguous substring.\<close>

fun js_includes :: "string \<Rightarrow> string \<Rightarrow> bool" where
  "js_includes [] k = (k = [])"
| "js_includes (c # cs) k = (take (length k) (c # cs) = k \<or> js_includes cs k)"

text \<open>A non-negative integer printed in decimal, as a template literal prints it.\<close>

fun show_nat :: "nat \<Rightarrow> string" where
  "show_nat n =
     (if n < 10 then [char_of (48 + n)]
      else show_nat (n div 10) @ [char_of (48 + n mod 10)])"

section \<open>Errors, requests and the providers\<close>

text \<open>
  \<open>NetworkError\<close> is a rejected HTTP request, \<open>TypeError\<close> a property read on
  \<open>undefined\<close>; \<open>Failed_to_fetch_crypto_data\<close> is the error that \<open>fetchCryptoData\<close>
  throws from its catch block, wrapping the one it caught.
\<close>

datatype error = NetworkError | TypeError | Failed_to_fetch_crypto_data error

text \<open>The HTTP requests that the two services send, with the parameters that matter.\<close>

datatype request =
    KlinesRequest string string nat
  | TickerRequest string
  | MarketsRequest
  | MarketDetailRequest string

text \<open>
  One row of the candle endpoint after the \<open>parseInt\<close>/\<open>parseFloat\<close> conversions of
  \<open>fetchKlineData\<close>.
\<close>

record candle =
  openTime :: int
  openPrice :: real
  high :: real
  low :: real
  close :: real
  volume :: real
  closeTime :: int
  quoteVolume :: real
  trades :: int
  takerBuyVolume :: real
  takerBuyQuoteVolume :: real

text \<open>The 24h ticker after \<open>parseFloat\<close>.\<close>

record ticker =
  lastPrice :: real
  priceChange :: real
  priceChangePercent :: real
  tickerVolume :: real

text \<open>A market of the listing endpoint; JSON fields may be missing.\<close>

record raw_market =
  market_id :: string
  question :: "string option"
  description :: "string option"
  tags :: "string list option"

text \<open>The body of the per-market detail endpoint.\<close>

record market_detail =
  detail_price :: "real option"
  detail_volume24h :: "real option"
  detail_liquidity :: "real option"

text \<open>
  The outside world at the time of one call: what each endpoint answers. The candle
  endpoint is asked with pair, interval and limit.
\<close>

record provider =
  klines :: "string \<Rightarrow> string \<Rightarrow> nat \<Rightarrow> error + candle list"
  ticker24hr :: "string \<Rightarrow> error + ticker"
  markets_listing :: "error + raw_market list"
  market_details :: "string \<Rightarrow> error + market_detail"

text \<open>A cache entry \<open>{data, timestamp}\<close>, and the freshness test both services make on a read.\<close>

record 'a cached =
  data :: 'a
  timestamp :: int

definition cache_read :: "(string \<rightharpoonup> 'a cached) \<Rightarrow> string \<Rightarrow> int \<Rightarrow> int \<Rightarrow> 'a option" where
  "cache_read cache cacheKey now cacheTimeout =
     (case cache cacheKey of
        None \<Rightarrow> None
      | Some entry \<Rightarrow> if now - timestamp entry < cacheTimeout then Some (data entry) else None)"

section \<open>CryptoService: market data\<close>

text \<open>
  \<open>Math.max(...xs)\<close> and \<open>Math.min(...xs)\<close>: with no argument they are \<open>-Infinity\<close> and
  \<open>Infinity\<close>.
\<close>

datatype ext_number = NegInfinity | Finite real | PosInfinity

definition Math_max :: "real list \<Rightarrow> ext_number" where
  "Math_max xs = (case xs of [] \<Rightarrow> NegInfinity | x # rest \<Rightarrow> Finite (foldl max x rest))"

definition Math_min :: "real list \<Rightarrow> ext_number" where
  "Math_min xs = (case xs of [] \<Rightarrow> PosInfinity | x # rest \<Rightarrow> Finite (foldl min x rest))"

text \<open>\<open>xs.slice(-n)\<close>: the last \<open>n\<close> elements, all of them when there are fewer.\<close>

definition slice_last :: "nat \<Rightarrow> 'a list \<Rightarrow> 'a list" where
  "slice_last n xs = drop (length xs - n) xs"

record timeframe_data =
  interval :: string
  candles :: "candle list"
  currentPrice :: real
  high24h :: ext_number
  low24h :: ext_number
  volume24h :: real

text \<open>
  The three trailing-window aggregates of \<open>fetchKlineData\<close>, each as the source computes
  it from the candle array.
\<close>

definition high24h_of :: "candle list \<Rightarrow> ext_number" where
  "high24h_of cs = Math_max (map high (slice_last 96 cs))"

definition low24h_of :: "candle list \<Rightarrow> ext_number" where
  "low24h_of cs = Math_min (map low (slice_last 96 cs))"

definition volume24h_of :: "candle list \<Rightarrow> real" where
  "volume24h_of cs = foldl (\<lambda>sum c. sum + volume c) 0 (slice_last 96 cs)"

text \<open>
  \<open>candles[candles.length - 1].close\<close>: on an empty array the element is \<open>undefined\<close>
  and reading \<open>.close\<close> throws a TypeError.
\<close>

definition currentPrice_of :: "candle list \<Rightarrow> error + real" where
  "currentPrice_of cs = (if cs = [] then Inl TypeError else Inr (close (last cs)))"

text \<open>
  \<open>fetchKlineData\<close> sends one request; its catch block logs and rethrows. The fields of
  the returned object are evaluated in order, \<open>currentPrice\<close> first.
\<close>

definition fetchKlineData ::
  "provider \<Rightarrow> string \<Rightarrow> string \<Rightarrow> request list \<times> (error + timeframe_data)" where
  "fetchKlineData env symb iv =
     ([KlinesRequest (symb @ ''USDT'') iv 500],
      case klines env (symb @ ''USDT'') iv 500 of
        Inl e \<Rightarrow> Inl e
      | Inr cs \<Rightarrow>
          (case currentPrice_of cs of
             Inl e \<Rightarrow> Inl e
           | Inr p \<Rightarrow>
               Inr \<lparr>interval = iv, candles = cs, currentPrice = p,
                    high24h = high24h_of cs, low24h = low24h_of cs,
                    volume24h = volume24h_of cs\<rparr>))"

text \<open>\<open>getTickerData\<close> catches its own failure and returns \<open>null\<close>.\<close>

definition getTickerData :: "provider \<Rightarrow> string \<Rightarrow> request list \<times> ticker option" where
  "getTickerData env symb =
     ([TickerRequest (symb @ ''USDT'')],
      case ticker24hr env (symb @ ''USDT'') of Inl e \<Rightarrow> None | Inr t \<Rightarrow> Some t)"

record crypto_data =
  symbol :: string
  tickerPrice :: "real option"
  priceChange24h :: "real option"
  priceChangePercent24h :: "real option"
  tickerVolume24h :: "real option"
  timeframes :: "(string \<times> timeframe_data) list"

text \<open>
  \<open>Promise.all\<close>: every request has been sent by the time it is awaited; it rejects when
  one of them rejects. The model reports the first rejection in list order.
\<close>

fun promise_all :: "(error + 'a) list \<Rightarrow> error + 'a list" where
  "promise_all [] = Inr []"
| "promise_all (Inl e # rs) = Inl e"
| "promise_all (Inr x # rs) =
     (case promise_all rs of Inl e \<Rightarrow> Inl e | Inr xs \<Rightarrow> Inr (x # xs))"

definition all_timeframes :: "string list" where
  "all_timeframes = [''15m'', ''1h'', ''4h'', ''1d'', ''1w'', ''1M'']"

text \<open>\<open>timeframe || 'all'\<close> and \<open>timeframe ? \<dots> : \<dots>\<close>: \<open>null\<close> and the empty string are falsy.\<close>

definition truthy_string :: "string option \<Rightarrow> bool" where
  "truthy_string t = (case t of None \<Rightarrow> False | Some s \<Rightarrow> s \<noteq> [])"

definition crypto_cache_key :: "string \<Rightarrow> string option \<Rightarrow> string" where
  "crypto_cache_key symb timeframe =
     symb @ ''-'' @ (if truthy_string timeframe then the timeframe else ''all'')"

text \<open>\<open>timeframe ? [timeframe] : ['15m', '1h', '4h', '1d', '1w', '1M']\<close>.\<close>

definition requested_timeframes :: "string option \<Rightarrow> string list" where
  "requested_timeframes timeframe =
     (if truthy_string timeframe then [the timeframe] else all_timeframes)"

type_synonym crypto_cache = "string \<rightharpoonup> crypto_data cached"

text \<open>
  The try block of \<open>fetchCryptoData\<close>, entered when the cache has no fresh entry.
  \<open>now_store\<close> is the value of \<open>Date.now()\<close> when the result is cached.
\<close>

definition fetch_uncached ::
  "provider \<Rightarrow> int \<Rightarrow> crypto_cache \<Rightarrow> string \<Rightarrow> string option
     \<Rightarrow> request list \<times> (error + crypto_data) \<times> crypto_cache" where
  "fetch_uncached env now_store cache symb timeframe =
     (let tfs = requested_timeframes timeframe;
          calls = map (fetchKlineData env symb) tfs;
          sent = concat (map fst calls)
      in case promise_all (map snd calls) of
           Inl e \<Rightarrow> (sent, Inl (Failed_to_fetch_crypto_data e), cache)
         | Inr results \<Rightarrow>
             (let (sent2, tk) = getTickerData env symb;
                  d = \<lparr>symbol = symb,
                       tickerPrice = map_option lastPrice tk,
                       priceChange24h = map_option priceChange tk,
                       priceChangePercent24h = map_option priceChangePercent tk,
                       tickerVolume24h = map_option tickerVolume tk,
                       timeframes = zip tfs results\<rparr>
              in (sent @ sent2, Inr d,
                  cache(crypto_cache_key symb timeframe
                          \<mapsto> \<lparr>data = d, timestamp = now_store\<rparr>))))"

text \<open>
  \<open>fetchCryptoData\<close>: \<open>now_check\<close> is the value of \<open>Date.now()\<close> at the cache check
  (60000 ms is \<open>cacheTimeout\<close>). The result is the requests sent, the value returned or
  the error thrown, and the cache afterwards.
\<close>

definition fetchCryptoData ::
  "provider \<Rightarrow> int \<Rightarrow> int \<Rightarrow> crypto_cache \<Rightarrow> string \<Rightarrow> string option
     \<Rightarrow> request list \<times> (error + crypto_data) \<times> crypto_cache" where
  "fetchCryptoData env now_check now_store cache symb timeframe =
     (case cache_read cache (crypto_cache_key symb timeframe) now_check 60000 of
        Some d \<Rightarrow> ([], Inr d, cache)
      | None \<Rightarrow> fetch_uncached env now_store cache symb timeframe)"

section \<open>CryptoService: key levels\<close>

record key_levels =
  support :: "real list"
  resistance :: "real list"

text \<open>One iteration of the swing loop at index \<open>i\<close>, with \<open>2 \<le> i\<close> and \<open>i + 2 < n\<close>.\<close>

definition swing_step :: "candle list \<Rightarrow> key_levels \<Rightarrow> nat \<Rightarrow> key_levels" where
  "swing_step rc levels i =
     (let current = rc ! i;
          l1 = (if high current > high (rc ! (i - 1)) \<and>
                   high current > high (rc ! (i - 2)) \<and>
                   high current > high (rc ! (i + 1)) \<and>
                   high current > high (rc ! (i + 2))
                then (if high current \<in> set (resistance levels) then levels
                      else levels\<lparr>resistance := resistance levels @ [high current]\<rparr>)
                else levels);
          l2 = (if low current < low (rc ! (i - 1)) \<and>
                   low current < low (rc ! (i - 2)) \<and>
                   low current < low (rc ! (i + 1)) \<and>
                   low current < low (rc ! (i + 2))
                then (if low current \<in> set (support l1) then l1
                      else l1\<lparr>support := support l1 @ [low current]\<rparr>)
                else l1)
      in l2)"

text \<open>
  \<open>findKeyLevels\<close>: the loop runs over \<open>i = 2, \<dots>, n - 3\<close> of the last 50 daily candles;
  then resistance is sorted descending, support ascending, each cut to three.
\<close>

definition findKeyLevels :: "crypto_data \<Rightarrow> key_levels" where
  "findKeyLevels cryptoData =
     (case map_of (timeframes cryptoData) ''1d'' of
        None \<Rightarrow> \<lparr>support = [], resistance = []\<rparr>
      | Some dailyData \<Rightarrow>
          (let recentCandles = slice_last 50 (candles dailyData);
               levels = foldl (swing_step recentCandles) \<lparr>support = [], resistance = []\<rparr>
                          [2 ..< length recentCandles - 2]
           in \<lparr>support = take 3 (sort (support levels)),
               resistance = take 3 (rev (sort (resistance levels)))\<rparr>))"

section \<open>PolymarketService\<close>

text \<open>A listed market after enrichment: \<open>{...market, price, volume, liquidity}\<close>.\<close>

record market = raw_market +
  price :: real
  marketVolume :: real
  liquidity :: real

text \<open>
  \<open>getMarketPrice\<close> catches its own failure and answers zeros; a missing field is zero
  as well (\<open>x || 0\<close>). It never throws, so the catch around its call in
  \<open>fetchRelatedMarkets\<close> is never entered.
\<close>

definition or_zero :: "real option \<Rightarrow> real" where
  "or_zero v = (case v of None \<Rightarrow> 0 | Some x \<Rightarrow> x)"

definition getMarketPrice :: "provider \<Rightarrow> string \<Rightarrow> request list \<times> real \<times> real \<times> real" where
  "getMarketPrice env marketId =
     ([MarketDetailRequest marketId],
      case market_details env marketId of
        Inl e \<Rightarrow> (0, 0, 0)
      | Inr d \<Rightarrow> (or_zero (detail_price d), or_zero (detail_volume24h d),
                  or_zero (detail_liquidity d)))"

definition enrich :: "provider \<Rightarrow> raw_market \<Rightarrow> request list \<times> market" where
  "enrich env m =
     (let (sent, p, v, l) = getMarketPrice env (market_id m)
      in (sent, raw_market.extend m \<lparr>price = p, marketVolume = v, liquidity = l\<rparr>))"

text \<open>
  The filter predicate of \<open>fetchRelatedMarkets\<close>. \<open>market.question.toLowerCase()\<close>
  throws when the question is missing; \<open>description?.\<close> and \<open>tags?.\<close> yield
  \<open>undefined\<close> (falsy) when theirs is.
\<close>

definition related :: "string \<Rightarrow> raw_market \<Rightarrow> error + bool" where
  "related searchTerm m =
     (case question m of
        None \<Rightarrow> Inl TypeError
      | Some q \<Rightarrow>
          Inr (js_includes (toLowerCase q) (toLowerCase searchTerm) \<or>
               (case description m of
                  None \<Rightarrow> False
                | Some d \<Rightarrow> js_includes (toLowerCase d) (toLowerCase searchTerm)) \<or>
               (case tags m of
                  None \<Rightarrow> False
                | Some ts \<Rightarrow>
                    list_ex (\<lambda>tag. js_includes (toLowerCase tag) (toLowerCase searchTerm)) ts)))"

fun filter_related :: "string \<Rightarrow> raw_market list \<Rightarrow> error + raw_market list" where
  "filter_related searchTerm [] = Inr []"
| "filter_related searchTerm (m # ms) =
     (case related searchTerm m of
        Inl e \<Rightarrow> Inl e
      | Inr keep \<Rightarrow>
          (case filter_related searchTerm ms of
             Inl e \<Rightarrow> Inl e
           | Inr rest \<Rightarrow> Inr (if keep then m # rest else rest)))"

text \<open>
  \<open>fetchRelatedMarkets\<close>: one listing request, then one detail request per surviving
  market; any exception of the try block is answered by the empty array.
\<close>

definition fetchRelatedMarkets :: "provider \<Rightarrow> string \<Rightarrow> request list \<times> market list" where
  "fetchRelatedMarkets env searchTerm =
     (case markets_listing env of
        Inl e \<Rightarrow> ([MarketsRequest], [])
      | Inr listed \<Rightarrow>
          (case filter_related searchTerm listed of
             Inl e \<Rightarrow> ([MarketsRequest], [])
           | Inr ms \<Rightarrow>
               (let enriched = map (enrich env) ms
                in (MarketsRequest # concat (map fst enriched), map snd enriched))))"

definition bullishKeywords :: "string list" where
  "bullishKeywords =
     [''reach'', ''exceed'', ''above'', ''higher'', ''rise'', ''increase'', ''gain'', ''bull'',
      ''moon'', ''pump'', ''surge'', ''rally'', ''breakout'', '' ATH'', ''all-time high'']"

definition bearishKeywords :: "string list" where
  "bearishKeywords =
     [''fall'', ''below'', ''lower'', ''drop'', ''decrease'', ''decline'', ''bear'',
      ''crash'', ''dump'', ''plunge'', ''collapse'', ''breakdown'']"

text \<open>
  \<open>analyzeMarketSentiment\<close>: the two \<open>forEach\<close> passes overwrite \<open>direction\<close>, the
  bearish pass last; then the score is 50 plus the modifier. \<open>market.price || 0\<close> is
  the price itself on a number.
\<close>

definition keyword_pass :: "string list \<Rightarrow> trend \<Rightarrow> string \<Rightarrow> string \<Rightarrow> trend \<Rightarrow> trend" where
  "keyword_pass keywords label q d direction =
     foldl (\<lambda>dir keyword. if js_includes q keyword \<or> js_includes d keyword then label else dir)
       direction keywords"

definition analyzeMarketSentiment :: "market \<Rightarrow> string \<Rightarrow> error + trend \<times> real" where
  "analyzeMarketSentiment m symb =
     (case question m of
        None \<Rightarrow> Inl TypeError
      | Some qu \<Rightarrow>
          (let q = toLowerCase qu;
               d = toLowerCase (case description m of None \<Rightarrow> [] | Some ds \<Rightarrow> ds);
               p = price m;
               direction = keyword_pass bearishKeywords BEARISH q d
                             (keyword_pass bullishKeywords BULLISH q d NEUTRAL);
               scoreModifier = (if direction = BULLISH then p * 30
                                else if direction = BEARISH then (1 - p) * 30
                                else 0)
           in Inr (direction, 50 + scoreModifier)))"

text \<open>\<open>Math.round\<close>: the nearest integer, halves upwards.\<close>

definition Math_round :: "real \<Rightarrow> int" where
  "Math_round x = \<lfloor>x + 1 / 2\<rfloor>"

text \<open>The four accumulators of the \<open>forEach\<close> loop of \<open>calculateSentiment\<close>.\<close>

record totals =
  totalScore :: real
  totalVolume :: real
  bullishMarkets :: nat
  bearishMarkets :: nat

fun accumulate :: "string \<Rightarrow> market list \<Rightarrow> totals \<Rightarrow> error + totals" where
  "accumulate symb [] t = Inr t"
| "accumulate symb (m # ms) t =
     (case analyzeMarketSentiment m symb of
        Inl e \<Rightarrow> Inl e
      | Inr (direction, score) \<Rightarrow>
          (let weight = ln (marketVolume m + 1) + 1
           in accumulate symb ms
                \<lparr>totalScore = totalScore t + score * weight,
                 totalVolume = totalVolume t + weight,
                 bullishMarkets = (if direction = BULLISH then bullishMarkets t + 1
                                   else bullishMarkets t),
                 bearishMarkets = (if direction = BEARISH then bearishMarkets t + 1
                                   else bearishMarkets t)\<rparr>))"

text \<open>
  \<open>generateSentimentAnalysis\<close>, the narrative text.
\<close>

definition generateSentimentAnalysis :: "real \<Rightarrow> nat \<Rightarrow> nat \<Rightarrow> nat \<Rightarrow> string" where
  "generateSentimentAnalysis score totalMarkets bullish bearish =
     (let sentiment = (if score > 60 then ''optimistic''
                       else if score < 40 then ''pessimistic'' else ''neutral'')
      in ''Polymarket sentiment is '' @ sentiment @ '' with '' @
         show_nat totalMarkets @ '' active prediction markets. '' @
         (if bullish > bearish then
            show_nat bullish @ '' markets show bullish sentiment while '' @
            show_nat bearish @ '' show bearish sentiment. ''
          else if bearish > bullish then
            show_nat bearish @ '' markets show bearish sentiment while '' @
            show_nat bullish @ '' show bullish sentiment. ''
          else []) @
         ''Crowd wisdom suggests '' @
         (if sentiment = ''optimistic'' then ''potential upside''
          else if sentiment = ''pessimistic'' then ''potential downside''
          else ''sideways movement'') @ ''.'')"

text \<open>
  An entry of the returned \<open>markets\<close> list. The source formats \<open>price * 100\<close> and the
  volume as text (\<open>toFixed\<close>, \<open>formatVolume\<close>); the entry keeps the two numbers.
\<close>

record top_market =
  top_question :: "string option"
  top_price :: real
  top_volume :: real

text \<open>
  The object returned for a symbol. The count fields are absent from both neutral
  defaults, and \<open>analysis\<close> from the one of the catch block.
\<close>

record sentiment =
  score :: int
  sentimentConfidence :: int
  sources :: nat
  bullishCount_opt :: "nat option"
  bearishCount_opt :: "nat option"
  sentimentTrend :: trend
  topMarkets :: "top_market list"
  analysis :: "string option"

definition calculateSentiment :: "market list \<Rightarrow> string \<Rightarrow> error + sentiment" where
  "calculateSentiment ms symb =
     (if length ms = 0 then
        Inr \<lparr>score = 50, sentimentConfidence = 0, sources = 0,
             bullishCount_opt = None, bearishCount_opt = None,
             sentimentTrend = NEUTRAL, topMarkets = [],
             analysis = Some ''No prediction markets found for this asset''\<rparr>
      else
        (case accumulate symb ms
                \<lparr>totalScore = 0, totalVolume = 0, bullishMarkets = 0, bearishMarkets = 0\<rparr> of
           Inl e \<Rightarrow> Inl e
         | Inr t \<Rightarrow>
             (let weightedScore = totalScore t / totalVolume t;
                  conf = min ((totalVolume t / real (length ms)) * 10) 100;
                  tr = (if weightedScore > 60 then BULLISH
                        else if weightedScore < 40 then BEARISH else NEUTRAL);
                  top = map (\<lambda>m. \<lparr>top_question = question m, top_price = price m * 100,
                                    top_volume = marketVolume m\<rparr>)
                          (take 3 (sort_key (\<lambda>m. - marketVolume m) ms))
              in Inr \<lparr>score = Math_round weightedScore,
                      sentimentConfidence = Math_round conf,
                      sources = length ms,
                      bullishCount_opt = Some (bullishMarkets t),
                      bearishCount_opt = Some (bearishMarkets t),
                      sentimentTrend = tr, topMarkets = top,
                      analysis = Some (generateSentimentAnalysis weightedScore (length ms)
                                         (bullishMarkets t) (bearishMarkets t))\<rparr>)))"

text \<open>
  \<open>mapSymbolToSearchTerm\<close>: the ten-entry table, the symbol itself otherwise. The
  table is the object literal's own keys; a symbol that names a property inherited from
  \<open>Object.prototype\<close> (all of them contain lower-case letters) is outside the model.
\<close>

definition symbol_mapping :: "(string \<times> string) list" where
  "symbol_mapping =
     [(''BTC'', ''Bitcoin''), (''ETH'', ''Ethereum''), (''SOL'', ''Solana''),
      (''ADA'', ''Cardano''), (''DOT'', ''Polkadot''), (''MATIC'', ''Polygon''),
      (''AVAX'', ''Avalanche''), (''LINK'', ''Chainlink''), (''UNI'', ''Uniswap''),
      (''ATOM'', ''Cosmos'')]"

definition mapSymbolToSearchTerm :: "string \<Rightarrow> string" where
  "mapSymbolToSearchTerm symb =
     (case map_of symbol_mapping symb of None \<Rightarrow> symb | Some term \<Rightarrow> term)"

type_synonym sentiment_cache = "string \<rightharpoonup> sentiment cached"

text \<open>The neutral object returned by the catch block of \<open>getSentimentData\<close>.\<close>

definition neutral_on_error :: sentiment where
  "neutral_on_error =
     \<lparr>score = 50, sentimentConfidence = 0, sources = 0,
      bullishCount_opt = None, bearishCount_opt = None,
      sentimentTrend = NEUTRAL, topMarkets = [], analysis = None\<rparr>"

text \<open>
  The try block of \<open>getSentimentData\<close>, entered when the cache has no fresh entry: it can
  end in an exception, and caches only a computed result.
\<close>

definition getSentimentData_try ::
  "provider \<Rightarrow> int \<Rightarrow> sentiment_cache \<Rightarrow> string
     \<Rightarrow> request list \<times> (error + sentiment) \<times> sentiment_cache" where
  "getSentimentData_try env now_store cache symb =
     (let searchTerm = mapSymbolToSearchTerm symb;
          (sent, ms) = fetchRelatedMarkets env searchTerm
      in case calculateSentiment ms symb of
           Inl e \<Rightarrow> (sent, Inl e, cache)
         | Inr sentimentData \<Rightarrow>
             (sent, Inr sentimentData,
              cache(''sentiment-'' @ symb
                      \<mapsto> \<lparr>data = sentimentData, timestamp = now_store\<rparr>)))"

text \<open>
  \<open>getSentimentData\<close>: the cache check (300000 ms), then the try block with its catch,
  which returns the neutral object.
\<close>

definition getSentimentData ::
  "provider \<Rightarrow> int \<Rightarrow> int \<Rightarrow> sentiment_cache \<Rightarrow> string
     \<Rightarrow> request list \<times> sentiment \<times> sentiment_cache" where
  "getSentimentData env now_check now_store cache symb =
     (case cache_read cache (''sentiment-'' @ symb) now_check 300000 of
        Some d \<Rightarrow> ([], d, cache)
      | None \<Rightarrow>
          (case getSentimentData_try env now_store cache symb of
             (sent, Inl e, cache') \<Rightarrow> (sent, neutral_on_error, cache')
           | (sent, Inr d, cache') \<Rightarrow> (sent, d, cache')))"

section \<open>The analyze command\<close>

text \<open>
  The \<open>security\<close> section of the configuration: \<open>maxSymbolLength\<close> and the pattern
  \<open>allowedSymbols\<close>, \<open>/^[A-Z0-9]+$/\<close>, which a string matches when it is non-empty and
  made of upper-case letters and digits only.
\<close>

definition maxSymbolLength :: nat where
  "maxSymbolLength = 10"

definition allowedSymbols :: "string \<Rightarrow> bool" where
  "allowedSymbols s =
     (s \<noteq> [] \<and>
      list_all (\<lambda>c. let n = (of_char c :: nat)
                     in (65 \<le> n \<and> n \<le> 90) \<or> (48 \<le> n \<and> n \<le> 57)) s)"

text \<open>The two process-wide caches, and the four readings of \<open>Date.now()\<close> of one run.\<close>

record services =
  cryptoCache :: crypto_cache
  sentimentCache :: sentiment_cache

record clock =
  crypto_check :: int
  crypto_store :: int
  sentiment_check :: int
  sentiment_store :: int

text \<open>
  \<open>execute\<close> up to its last request to a data source: the option \<open>symbol\<close> is
  upper-cased and handed to \<open>fetchCryptoData\<close>, whose exception ends the try block;
  then \<open>getSentimentData\<close> is called with the same symbol. The progress messages, the
  indicator computation and the rendering of the reply are not part of the model.
\<close>

definition execute ::
  "provider \<Rightarrow> clock \<Rightarrow> services \<Rightarrow> string \<Rightarrow> string option
     \<Rightarrow> request list \<times> (error + crypto_data \<times> sentiment) \<times> services" where
  "execute env clk sv symbol_option timeframe =
     (let symb = toUpperCase symbol_option
      in case fetchCryptoData env (crypto_check clk) (crypto_store clk)
                (cryptoCache sv) symb timeframe of
           (sent, Inl e, cc) \<Rightarrow> (sent, Inl e, sv\<lparr>cryptoCache := cc\<rparr>)
         | (sent, Inr cryptoData, cc) \<Rightarrow>
             (let (sent2, sentimentData, sc) =
                    getSentimentData env (sentiment_check clk) (sentiment_store clk)
                      (sentimentCache sv) symb
              in (sent @ sent2, Inr (cryptoData, sentimentData),
                  \<lparr>cryptoCache = cc, sentimentCache = sc\<rparr>)))"

section \<open>Sample inputs\<close>

text \<open>A candle with the given high and low, and a provider that answers every candle
  request with the same rows while its other endpoints fail.\<close>

definition sample_candle :: "real \<Rightarrow> real \<Rightarrow> candle" where
  "sample_candle h l =
     \<lparr>openTime = 0, openPrice = l, high = h, low = l, close = h, volume = 1,
      closeTime = 0, quoteVolume = 0, trades = 0, takerBuyVolume = 0,
      takerBuyQuoteVolume = 0\<rparr>"

definition candle_provider :: "candle list \<Rightarrow> provider" where
  "candle_provider cs =
     \<lparr>klines = (\<lambda>pair iv limit. Inr cs), ticker24hr = (\<lambda>pair. Inl NetworkError),
      markets_listing = Inl NetworkError, market_details = (\<lambda>marketId. Inl NetworkError)\<rparr>"

definition rising_series :: timeframe_data where
  "rising_series =
     \<lparr>interval = ''1d'',
      candles = [sample_candle 2 1, sample_candle 3 2, sample_candle 4 3,
                 sample_candle 5 4, sample_candle 6 5, sample_candle 7 6],
      currentPrice = 7, high24h = Finite 7, low24h = Finite 1, volume24h = 6\<rparr>"

definition rising_data :: crypto_data where
  "rising_data =
     \<lparr>symbol = ''BTC'', tickerPrice = None, priceChange24h = None,
      priceChangePercent24h = None, tickerVolume24h = None,
      timeframes = [(''1d'', rising_series)]\<rparr>"

text \<open>The snapshot that \<open>fetchCryptoData\<close> builds for the daily timeframe from one candle
  when the ticker request fails.\<close>

definition sample_snapshot :: crypto_data where
  "sample_snapshot =
     \<lparr>symbol = ''BTC'', tickerPrice = None, priceChange24h = None,
      priceChangePercent24h = None, tickerVolume24h = None,
      timeframes =
        [(''1d'', \<lparr>interval = ''1d'', candles = [sample_candle 2 1], currentPrice = 2,
                   high24h = Finite 2, low24h = Finite 1, volume24h = 1\<rparr>)]\<rparr>"

definition no_cache :: services where
  "no_cache = \<lparr>cryptoCache = Map.empty, sentimentCache = Map.empty\<rparr>"

text \<open>Three markets, and a provider whose listing endpoint answers with the given markets
  while its other endpoints fail.\<close>

definition bearish_example :: market where
  "bearish_example =
     \<lparr>market_id = ''1'', question = Some ''Will Bitcoin fall below 50000?'',
      description = None, tags = None, price = 1 / 2, marketVolume = 0, liquidity = 0\<rparr>"

definition quiet_market :: market where
  "quiet_market =
     \<lparr>market_id = ''7'', question = Some ''Will Bitcoin reach 100000?'',
      description = None, tags = None, price = 1 / 2, marketVolume = 0, liquidity = 0\<rparr>"

definition unrelated_market :: raw_market where
  "unrelated_market =
     \<lparr>market_id = ''3'', question = Some ''Will it rain in Paris?'',
      description = None, tags = Some [''weather'']\<rparr>"

definition listing_provider :: "raw_market list \<Rightarrow> provider" where
  "listing_provider listed =
     \<lparr>klines = (\<lambda>pair iv limit. Inl NetworkError), ticker24hr = (\<lambda>pair. Inl NetworkError),
      markets_listing = Inr listed, market_details = (\<lambda>marketId. Inl NetworkError)\<rparr>"

definition crash_market :: market where
  "crash_market =
     \<lparr>market_id = ''2'', question = Some ''Will Bitcoin crash?'',
      description = None, tags = None, price = 99 / 100, marketVolume = 0, liquidity = 0\<rparr>"

definition negative_volume_market :: market where
  "negative_volume_market =
     \<lparr>market_id = ''8'', question = Some ''Will Bitcoin reach 100000?'',
      description = None, tags = None, price = 1 / 2, marketVolume = - (1 / 2),
      liquidity = 0\<rparr>"


definition macd_only :: "macd_output \<Rightarrow> technical_analysis" where
  "macd_only m = \<lparr>rsi = None, macd = Some m, sma20 = None, ema20 = None, bollingerBands = None\<rparr>"

section \<open>Properties of the trading signals\<close>

lemmas step_defs = set_rsi_vote_def set_macd_vote_def set_ma_vote_def
  inc_bullish_def inc_bearish_def

lemma rsi_signal_initial:
  "macd_vote (signals (sigs (rsi_signal ta initial_gen_state))) = NEUTRAL"
  "ma_vote (signals (sigs (rsi_signal ta initial_gen_state))) = NEUTRAL"
  "bullishCount (rsi_signal ta initial_gen_state) =
     (if rsi_vote (signals (sigs (rsi_signal ta initial_gen_state))) = BULLISH then 1 else 0)"
  "bearishCount (rsi_signal ta initial_gen_state) =
     (if rsi_vote (signals (sigs (rsi_signal ta initial_gen_state))) = BEARISH then 1 else 0)"
  "overallSignal (sigs (rsi_signal ta initial_gen_state)) = HOLD"
  by (simp_all add: rsi_signal_def initial_gen_state_def step_defs split: option.splits)

lemma macd_signal_frame:
  "rsi_vote (signals (sigs (macd_signal ta g))) = rsi_vote (signals (sigs g))"
  "ma_vote (signals (sigs (macd_signal ta g))) = ma_vote (signals (sigs g))"
  "overallSignal (sigs (macd_signal ta g)) = overallSignal (sigs g)"
  by (simp_all add: macd_signal_def step_defs split: option.splits)


lemma ma_signal_frame:
  "rsi_vote (signals (sigs (ma_signal ta g))) = rsi_vote (signals (sigs g))"
  "macd_vote (signals (sigs (ma_signal ta g))) = macd_vote (signals (sigs g))"
  "overallSignal (sigs (ma_signal ta g)) = overallSignal (sigs g)"
  by (simp_all add: ma_signal_def step_defs split: option.splits)


lemma overall_signal_frame: "signals (overall_signal g) = signals (sigs g)"
  by (simp add: overall_signal_def)





lemma macd_vote_of_step:
  assumes "macd ta = Some m" "histogram m = Some h" "MACD m = Some l" "signal m = Some s"
    and "macd_vote (signals (sigs g)) = NEUTRAL"
  shows "macd_vote (signals (sigs (macd_signal ta g))) =
     (if h > 0 \<and> l > s then BULLISH else if h < 0 then BEARISH else NEUTRAL)"
  using assms by (auto simp add: macd_signal_def step_defs js_gt_def js_lt_def)

text \<open>
  Claim C4. When the analysis holds a MACD point with histogram \<open>h\<close>, line \<open>l\<close> and signal
  line \<open>s\<close>, the MACD vote of \<open>generateSignals\<close> is BULLISH exactly when \<open>h > 0\<close> and
  \<open>l > s\<close> both hold, BEARISH when \<open>h < 0\<close>, and NEUTRAL in every other case, so a
  positive histogram with \<open>l \<le> s\<close> votes NEUTRAL.
\<close>

theorem C4_macd_vote:
  assumes "macd ta = Some m" "histogram m = Some h" "MACD m = Some l" "signal m = Some s"
  shows "macd_vote (signals (generateSignals ta)) =
     (if h > 0 \<and> l > s then BULLISH else if h < 0 then BEARISH else NEUTRAL)"
  unfolding generateSignals_def overall_signal_frame ma_signal_frame
  by (rule macd_vote_of_step[OF assms rsi_signal_initial(1)])

theorem C4_macd_vote_witness:
  "macd_vote (signals (generateSignals
      (macd_only \<lparr>MACD = Some 1, signal = Some 2, histogram = Some 1\<rparr>))) = NEUTRAL \<and>
   macd_vote (signals (generateSignals
      (macd_only \<lparr>MACD = Some 2, signal = Some 1, histogram = Some 1\<rparr>))) = BULLISH \<and>
   macd_vote (signals (generateSignals
      (macd_only \<lparr>MACD = Some 1, signal = Some 2, histogram = Some (- 1)\<rparr>))) = BEARISH"
  using C4_macd_vote[of "macd_only \<lparr>MACD = Some 1, signal = Some 2, histogram = Some 1\<rparr>"
          "\<lparr>MACD = Some 1, signal = Some 2, histogram = Some 1\<rparr>" 1 1 2]
        C4_macd_vote[of "macd_only \<lparr>MACD = Some 2, signal = Some 1, histogram = Some 1\<rparr>"
          "\<lparr>MACD = Some 2, signal = Some 1, histogram = Some 1\<rparr>" 1 2 1]
        C4_macd_vote[of "macd_only \<lparr>MACD = Some 1, signal = Some 2, histogram = Some (- 1)\<rparr>"
          "\<lparr>MACD = Some 1, signal = Some 2, histogram = Some (- 1)\<rparr>" "- 1" 1 2]
  by (simp add: macd_only_def)

lemma rsi_vote_of_step:
  "rsi_vote (signals (sigs (rsi_signal ta initial_gen_state))) =
     (case rsi ta of
        None \<Rightarrow> NEUTRAL
      | Some r \<Rightarrow> if r = 0 then NEUTRAL else if r < 30 then BULLISH
                  else if r > 70 then BEARISH else NEUTRAL)"
  by (simp add: rsi_signal_def initial_gen_state_def step_defs truthy_def split: option.splits)

text \<open>The RSI vote on every input: a present value of zero is treated like an absent one.\<close>

lemma rsi_vote_generateSignals:
  "rsi_vote (signals (generateSignals ta)) =
     (case rsi ta of
        None \<Rightarrow> NEUTRAL
      | Some r \<Rightarrow> if r = 0 then NEUTRAL else if r < 30 then BULLISH
                  else if r > 70 then BEARISH else NEUTRAL)"
  unfolding generateSignals_def overall_signal_frame ma_signal_frame macd_signal_frame
  by (rule rsi_vote_of_step)

text \<open>
  Claim C5. The claim asks for a BULLISH vote at every RSI below 30, zero included. At an
  RSI of exactly 0 the guard \<open>if (technicalAnalysis.rsi)\<close> is false and the vote of
  \<open>generateSignals\<close> stays NEUTRAL.
\<close>

theorem C5_rsi_zero_votes_neutral:
  "rsi_vote (signals (generateSignals (ta\<lparr>rsi := Some 0\<rparr>))) = NEUTRAL"
  by (simp add: rsi_vote_generateSignals)







section \<open>Properties of the key levels\<close>

lemma swing_step_increasing:
  assumes hi: "sorted_wrt (<) (map high rc)" and lo: "sorted_wrt (<) (map low rc)"
    and i: "1 \<le> i" "i + 1 < length rc"
  shows "swing_step rc levels i = levels"
proof -
  have "high (rc ! i) < high (rc ! (i + 1))"
    using sorted_wrt_nth_less[OF hi, of i "i + 1"] i by simp
  moreover have "low (rc ! (i - 1)) < low (rc ! i)"
    using sorted_wrt_nth_less[OF lo, of "i - 1" i] i by simp
  ultimately show ?thesis
    by (simp add: swing_step_def Let_def)
qed

lemma foldl_unchanged:
  "(\<And>i. i \<in> set js \<Longrightarrow> f a i = a) \<Longrightarrow> foldl f a js = a"
  by (induction js) simp_all

lemma slice_last_sorted_wrt:
  "sorted_wrt P (map f xs) \<Longrightarrow> sorted_wrt P (map f (slice_last n xs))"
  by (simp add: slice_last_def drop_map[symmetric] sorted_wrt_drop)

text \<open>
  Claim C7. When the highs and the lows of the daily candles are strictly increasing,
  \<open>findKeyLevels\<close> returns an empty support list and an empty resistance list: at no
  index of the loop do the comparisons with the later highs or the earlier lows hold.
\<close>

theorem C7_increasing_series_no_levels:
  assumes daily: "map_of (timeframes cryptoData) ''1d'' = Some dailyData"
    and hi: "sorted_wrt (<) (map high (candles dailyData))"
    and lo: "sorted_wrt (<) (map low (candles dailyData))"
  shows "findKeyLevels cryptoData = \<lparr>support = [], resistance = []\<rparr>"
proof -
  let ?rc = "slice_last 50 (candles dailyData)"
  let ?none = "\<lparr>support = [], resistance = []\<rparr>"
  have "foldl (swing_step ?rc) ?none [2 ..< length ?rc - 2] = ?none"
  proof (rule foldl_unchanged)
    fix i assume "i \<in> set [2 ..< length ?rc - 2]"
    then have "1 \<le> i" "i + 1 < length ?rc" by auto
    then show "swing_step ?rc ?none i = ?none"
      using swing_step_increasing[OF slice_last_sorted_wrt[OF hi] slice_last_sorted_wrt[OF lo]]
      by blast
  qed
  then show ?thesis
    by (simp add: findKeyLevels_def daily Let_def)
qed

theorem C7_increasing_series_no_levels_witness:
  "map_of (timeframes rising_data) ''1d'' = Some rising_series \<and>
   sorted_wrt (<) (map high (candles rising_series)) \<and>
   sorted_wrt (<) (map low (candles rising_series)) \<and>
   findKeyLevels rising_data = \<lparr>support = [], resistance = []\<rparr>"
  using C7_increasing_series_no_levels[of rising_data rising_series]
  by (simp add: rising_data_def rising_series_def sample_candle_def)

section \<open>Properties of the candle fetch\<close>

lemma foldl_max_Max: "foldl max (x::real) xs = Max (set (x # xs))"
proof (induction xs arbitrary: x)
  case Nil
  show ?case by simp
next
  case (Cons y ys)
  have "foldl max x (y # ys) = Max (set (max x y # ys))"
    using Cons.IH by simp
  also have "\<dots> = Max (set (x # y # ys))"
    by (cases "ys = []") (simp_all add: max.assoc max.commute)
  finally show ?case .
qed

lemma foldl_min_Min: "foldl min (x::real) xs = Min (set (x # xs))"
proof (induction xs arbitrary: x)
  case Nil
  show ?case by simp
next
  case (Cons y ys)
  have "foldl min x (y # ys) = Min (set (min x y # ys))"
    using Cons.IH by simp
  also have "\<dots> = Min (set (x # y # ys))"
    by (cases "ys = []") (simp_all add: min.assoc min.commute)
  finally show ?case .
qed

lemma Math_max_nonempty: "xs \<noteq> [] \<Longrightarrow> Math_max xs = Finite (Max (set xs))"
  by (cases xs) (simp_all add: Math_max_def foldl_max_Max del: set_simps)

lemma Math_min_nonempty: "xs \<noteq> [] \<Longrightarrow> Math_min xs = Finite (Min (set xs))"
  by (cases xs) (simp_all add: Math_min_def foldl_min_Min del: set_simps)

lemma foldl_add_sum_list:
  "foldl (\<lambda>sum c. sum + f c) (a::real) xs = a + sum_list (map f xs)"
  by (induction xs arbitrary: a) simp_all

lemma slice_last_nonempty: "xs \<noteq> [] \<Longrightarrow> 0 < n \<Longrightarrow> slice_last n xs \<noteq> []"
  by (cases xs) (auto simp add: slice_last_def)

text \<open>The three aggregates of an empty array, which no call of \<open>fetchKlineData\<close> reaches:
  the maximum of no numbers is \<open>-Infinity\<close>, the minimum \<open>Infinity\<close>, the sum 0.\<close>

lemma aggregates_of_no_candles:
  "high24h_of [] = NegInfinity \<and> low24h_of [] = PosInfinity \<and> volume24h_of [] = 0"
  by (simp add: high24h_of_def low24h_of_def volume24h_of_def slice_last_def
      Math_max_def Math_min_def)

text \<open>
  Claim C9. \<open>fetchKlineData\<close> needs a non-empty candle array. When the provider
  answers with no candle, the read of the last element's close for \<open>currentPrice\<close>
  reaches a missing element, and the call throws a TypeError before anything is
  returned, so the call fails unless the array is non-empty. When it answers with at
  least one candle the call returns the series: its current price is the last close, and
  its three aggregates are the maximum high, the minimum low and the total volume of the
  last 96 candles.
\<close>

theorem C9_fetchKlineData_needs_candles:
  assumes "klines env (symb @ ''USDT'') iv 500 = Inr cs"
  shows "(cs = [] \<longrightarrow> currentPrice_of cs = Inl TypeError \<and>
                      snd (fetchKlineData env symb iv) = Inl TypeError) \<and>
         (cs \<noteq> [] \<longrightarrow>
            snd (fetchKlineData env symb iv) =
              Inr \<lparr>interval = iv, candles = cs, currentPrice = close (last cs),
                   high24h = Finite (Max (set (map high (slice_last 96 cs)))),
                   low24h = Finite (Min (set (map low (slice_last 96 cs)))),
                   volume24h = sum_list (map volume (slice_last 96 cs))\<rparr>)"
  using assms
  by (simp add: fetchKlineData_def currentPrice_of_def high24h_of_def low24h_of_def
      volume24h_of_def Math_max_nonempty Math_min_nonempty foldl_add_sum_list
      slice_last_nonempty)

theorem C9_fetchKlineData_needs_candles_witness:
  "snd (fetchKlineData (candle_provider []) ''BTC'' ''1d'') = Inl TypeError \<and>
   snd (fetchKlineData (candle_provider [sample_candle 2 1]) ''BTC'' ''1d'') =
     Inr \<lparr>interval = ''1d'', candles = [sample_candle 2 1], currentPrice = 2,
          high24h = Finite 2, low24h = Finite 1, volume24h = 1\<rparr>"
  using C9_fetchKlineData_needs_candles[of "candle_provider []" "''BTC''" "''1d''" "[]"]
        C9_fetchKlineData_needs_candles[of "candle_provider [sample_candle 2 1]"
          "''BTC''" "''1d''" "[sample_candle 2 1]"]
  by (simp add: candle_provider_def sample_candle_def slice_last_def)

section \<open>Properties of the snapshot cache\<close>

lemma fst_fetchKlineData:
  "fst (fetchKlineData env symb iv) = [KlinesRequest (symb @ ''USDT'') iv 500]"
  by (simp add: fetchKlineData_def)

lemma klines_sent:
  "concat (map (fst \<circ> fetchKlineData env symb) tfs) =
     map (\<lambda>iv. KlinesRequest (symb @ ''USDT'') iv 500) tfs"
  by (induction tfs) (simp_all add: fst_fetchKlineData)

lemma requested_timeframes_nonempty: "requested_timeframes tf \<noteq> []"
  by (simp add: requested_timeframes_def all_timeframes_def)

text \<open>An uncached fetch sends one candle request per requested timeframe, whatever the
  provider answers.\<close>

lemma fetch_uncached_sent:
  "\<exists>rest. fst (fetch_uncached env t cache symb tf) =
     map (\<lambda>iv. KlinesRequest (symb @ ''USDT'') iv 500) (requested_timeframes tf) @ rest"
  by (simp add: fetch_uncached_def Let_def klines_sent split: sum.splits prod.splits)

lemma fetch_uncached_nonempty: "fst (fetch_uncached env t cache symb tf) \<noteq> []"
  using fetch_uncached_sent[of env t cache symb tf] requested_timeframes_nonempty[of tf]
  by auto

lemma fetch_uncached_stores:
  assumes "fetch_uncached env t cache symb tf = (sent, Inr d, cache')"
  shows "cache' = cache(crypto_cache_key symb tf \<mapsto> \<lparr>data = d, timestamp = t\<rparr>)"
  using assms
  by (auto simp add: fetch_uncached_def Let_def split: sum.splits prod.splits)

text \<open>A failed fetch leaves the cache as it was, a stale entry included.\<close>

lemma fetch_uncached_failure_keeps_cache:
  assumes "fetch_uncached env t cache symb tf = (sent, Inl e, cache')"
  shows "cache' = cache"
  using assms
  by (auto simp add: fetch_uncached_def Let_def split: sum.splits prod.splits)

lemma cache_read_stored:
  "cache_read (cache(k \<mapsto> \<lparr>data = d, timestamp = t\<rparr>)) k now ttl =
     (if now - t < ttl then Some d else None)"
  by (simp add: cache_read_def)

lemma cache_read_empty: "cache_read Map.empty k now ttl = None"
  by (simp add: cache_read_def)

text \<open>
  Claim C8. Let a first call of \<open>fetchCryptoData\<close> for a symbol and timeframe go to the
  provider and return the snapshot \<open>d\<close>, cached at clock reading \<open>t1\<close>. The entry stays in
  the cache with that timestamp. A second call for the same pair whose cache check reads
  the clock at \<open>t2\<close> returns \<open>d\<close> itself, sends no request and leaves the cache alone when
  \<open>t2 - t1 < 60000\<close>; when \<open>t2 - t1 \<ge> 60000\<close> it is a fresh fetch, which sends a candle
  request for every requested timeframe. Expiry is decided by that comparison at the
  read and by nothing else.
\<close>

theorem C8_snapshot_cache_ttl:
  assumes first: "fetchCryptoData env1 t0 t1 cache0 symb tf = (sent1, Inr d, cache1)"
    and fetched: "sent1 \<noteq> []"
  shows "cache1 (crypto_cache_key symb tf) = Some \<lparr>data = d, timestamp = t1\<rparr> \<and>
         (t2 - t1 < 60000 \<longrightarrow>
            fetchCryptoData env2 t2 t3 cache1 symb tf = ([], Inr d, cache1)) \<and>
         (t2 - t1 \<ge> 60000 \<longrightarrow>
            fetchCryptoData env2 t2 t3 cache1 symb tf =
              fetch_uncached env2 t3 cache1 symb tf \<and>
            (\<exists>rest. fst (fetchCryptoData env2 t2 t3 cache1 symb tf) =
               map (\<lambda>iv. KlinesRequest (symb @ ''USDT'') iv 500)
                 (requested_timeframes tf) @ rest))"
proof -
  have miss: "fetchCryptoData env1 t0 t1 cache0 symb tf =
                fetch_uncached env1 t1 cache0 symb tf"
    using first fetched by (auto simp add: fetchCryptoData_def split: option.splits)
  then have c1: "cache1 = cache0(crypto_cache_key symb tf \<mapsto> \<lparr>data = d, timestamp = t1\<rparr>)"
    using first fetch_uncached_stores by metis
  have rd: "cache_read cache1 (crypto_cache_key symb tf) t2 60000 =
              (if t2 - t1 < 60000 then Some d else None)"
    unfolding c1 by (rule cache_read_stored)
  have "cache1 (crypto_cache_key symb tf) = Some \<lparr>data = d, timestamp = t1\<rparr>"
    by (simp add: c1)
  moreover have "t2 - t1 < 60000 \<Longrightarrow>
      fetchCryptoData env2 t2 t3 cache1 symb tf = ([], Inr d, cache1)"
    by (simp add: fetchCryptoData_def rd)
  moreover have "t2 - t1 \<ge> 60000 \<Longrightarrow>
      fetchCryptoData env2 t2 t3 cache1 symb tf = fetch_uncached env2 t3 cache1 symb tf"
    by (simp add: fetchCryptoData_def rd)
  ultimately show ?thesis
    using fetch_uncached_sent[of env2 t3 cache1 symb tf] by simp
qed

lemma sample_first_call:
  "fetchCryptoData (candle_provider [sample_candle 2 1]) 0 5 Map.empty ''BTC'' (Some ''1d'') =
     ([KlinesRequest ''BTCUSDT'' ''1d'' 500, TickerRequest ''BTCUSDT''], Inr sample_snapshot,
      [''BTC-1d'' \<mapsto> \<lparr>data = sample_snapshot, timestamp = 5\<rparr>])"
  by (simp add: fetchCryptoData_def cache_read_def fetch_uncached_def fetchKlineData_def
      getTickerData_def candle_provider_def truthy_string_def crypto_cache_key_def
      currentPrice_of_def high24h_of_def low24h_of_def volume24h_of_def slice_last_def
      Math_max_def Math_min_def sample_snapshot_def sample_candle_def
      requested_timeframes_def Let_def)

theorem C8_snapshot_cache_ttl_witness:
  "fetchCryptoData (candle_provider [sample_candle 2 1]) 0 5 Map.empty ''BTC'' (Some ''1d'') =
     ([KlinesRequest ''BTCUSDT'' ''1d'' 500, TickerRequest ''BTCUSDT''], Inr sample_snapshot,
      [''BTC-1d'' \<mapsto> \<lparr>data = sample_snapshot, timestamp = 5\<rparr>]) \<and>
   fetchCryptoData (candle_provider []) 60004 60009
       [''BTC-1d'' \<mapsto> \<lparr>data = sample_snapshot, timestamp = 5\<rparr>] ''BTC'' (Some ''1d'') =
     ([], Inr sample_snapshot, [''BTC-1d'' \<mapsto> \<lparr>data = sample_snapshot, timestamp = 5\<rparr>]) \<and>
   (\<exists>rest. fst (fetchCryptoData (candle_provider []) 60005 60009
                  [''BTC-1d'' \<mapsto> \<lparr>data = sample_snapshot, timestamp = 5\<rparr>]
                  ''BTC'' (Some ''1d'')) =
            map (\<lambda>iv. KlinesRequest (''BTC'' @ ''USDT'') iv 500)
              (requested_timeframes (Some ''1d'')) @ rest)"
proof -
  let ?sent = "[KlinesRequest ''BTCUSDT'' ''1d'' 500, TickerRequest ''BTCUSDT'']"
  have ne: "?sent \<noteq> []" by simp
  have early: "(60004::int) - 5 < 60000" and late: "(60005::int) - 5 \<ge> 60000"
    by simp_all
  show ?thesis
    using sample_first_call
      C8_snapshot_cache_ttl[OF sample_first_call ne, of 60004 "candle_provider []" 60009]
      C8_snapshot_cache_ttl[OF sample_first_call ne, of 60005 "candle_provider []" 60009]
      early late
    by blast
qed

section \<open>Properties of the analyze command\<close>

text \<open>With nothing cached, \<open>execute\<close> sends the candle requests for the upper-cased
  symbol, whatever the symbol is.\<close>

lemma execute_sends:
  assumes "cryptoCache sv = Map.empty"
  shows "\<exists>rest. fst (execute env clk sv symbol_option tf) =
     map (\<lambda>iv. KlinesRequest (toUpperCase symbol_option @ ''USDT'') iv 500)
       (requested_timeframes tf) @ rest"
proof -
  obtain rest where r: "fst (fetch_uncached env (crypto_store clk) Map.empty
        (toUpperCase symbol_option) tf) =
     map (\<lambda>iv. KlinesRequest (toUpperCase symbol_option @ ''USDT'') iv 500)
       (requested_timeframes tf) @ rest"
    using fetch_uncached_sent by blast
  show ?thesis
    using r
    by (cases "fetch_uncached env (crypto_store clk) Map.empty (toUpperCase symbol_option) tf")
       (auto simp add: execute_def fetchCryptoData_def cache_read_empty assms Let_def
          split: sum.splits prod.splits)
qed

lemma toUpperCase_samples:
  "toUpperCase ''btc-usd'' = ''BTC-USD''"
  "toUpperCase ''abcdefghijkl'' = ''ABCDEFGHIJKL''"
  by code_simp+

lemma allowedSymbols_samples:
  "\<not> allowedSymbols ''BTC-USD''"
  "allowedSymbols ''ABCDEFGHIJKL''"
  by code_simp+

text \<open>
  Claim C1. The claim asks that a symbol outside \<open>^[A-Z0-9]+$\<close> or longer than 10
  characters be rejected before any request. \<open>execute\<close> makes no such check: for the
  option \<open>btc-usd\<close>, whose upper-casing does not match the pattern, and for the
  twelve-letter option \<open>abcdefghijkl\<close>, it sends the candle request to the provider.
\<close>

theorem C1_unvalidated_symbol_is_requested:
  "\<not> allowedSymbols (toUpperCase ''btc-usd'') \<and>
   (\<exists>rest. fst (execute env clk no_cache ''btc-usd'' None) =
             KlinesRequest ''BTC-USDUSDT'' ''15m'' 500 # rest) \<and>
   maxSymbolLength < length (toUpperCase ''abcdefghijkl'') \<and>
   (\<exists>rest. fst (execute env clk no_cache ''abcdefghijkl'' None) =
             KlinesRequest ''ABCDEFGHIJKLUSDT'' ''15m'' 500 # rest)"
  using execute_sends[of no_cache env clk "''btc-usd''" None]
        execute_sends[of no_cache env clk "''abcdefghijkl''" None]
  by (auto simp add: toUpperCase_samples allowedSymbols_samples requested_timeframes_def
      truthy_string_def all_timeframes_def no_cache_def maxSymbolLength_def)

section \<open>Properties of the market sentiment\<close>

text \<open>What \<open>analyzeMarketSentiment\<close> returns for a market with a question.\<close>

lemma analyzeMarketSentiment_score:
  assumes "question m = Some q"
  shows "\<exists>direction sc. analyzeMarketSentiment m symb = Inr (direction, sc) \<and>
           sc = (case direction of
                   BULLISH \<Rightarrow> 50 + price m * 30
                 | BEARISH \<Rightarrow> 50 + (1 - price m) * 30
                 | NEUTRAL \<Rightarrow> 50) \<and>
           (0 \<le> price m \<and> price m \<le> 1 \<longrightarrow> 50 \<le> sc \<and> sc \<le> 80)"
proof -
  define direction where "direction =
    keyword_pass bearishKeywords BEARISH (toLowerCase q)
      (toLowerCase (case description m of None \<Rightarrow> [] | Some ds \<Rightarrow> ds))
      (keyword_pass bullishKeywords BULLISH (toLowerCase q)
        (toLowerCase (case description m of None \<Rightarrow> [] | Some ds \<Rightarrow> ds)) NEUTRAL)"
  have "analyzeMarketSentiment m symb =
      Inr (direction, 50 + (if direction = BULLISH then price m * 30
                            else if direction = BEARISH then (1 - price m) * 30 else 0))"
    by (simp add: analyzeMarketSentiment_def assms Let_def direction_def)
  then show ?thesis
    by (cases direction) auto
qed

lemma sample_market_scores:
  "analyzeMarketSentiment bearish_example ''BTC'' = Inr (BEARISH, 65)"
  "analyzeMarketSentiment crash_market ''BTC'' = Inr (BEARISH, 503 / 10)"
  by code_simp+

lemma crash_market_trend:
  "\<not> isl (calculateSentiment [crash_market] ''BTC'') \<and>
   sentimentTrend (projr (calculateSentiment [crash_market] ''BTC'')) = NEUTRAL"
  by (simp add: calculateSentiment_def sample_market_scores(2) Let_def)
    (simp add: crash_market_def)

text \<open>
  Claim C2. The claim has a bearish-classified market score below 50, by up to 30 points
  scaled by its price. In the code the bearish branch adds \<open>(1 - price) * 30\<close> to 50: a
  market asking whether Bitcoin will fall, priced at one half, is classified BEARISH and
  scores 65, and one asking whether Bitcoin will crash, priced at 0.99, scores 50.3, so
  that alone it gives the aggregate trend NEUTRAL.
\<close>

theorem C2_bearish_market_scores_above_50:
  "analyzeMarketSentiment bearish_example ''BTC'' = Inr (BEARISH, 65) \<and>
   analyzeMarketSentiment crash_market ''BTC'' = Inr (BEARISH, 503 / 10) \<and>
   \<not> isl (calculateSentiment [crash_market] ''BTC'') \<and>
   sentimentTrend (projr (calculateSentiment [crash_market] ''BTC'')) = NEUTRAL"
  using sample_market_scores crash_market_trend by simp

lemma filter_related_none:
  "\<forall>m\<in>set listed. related searchTerm m = Inr False \<Longrightarrow>
   filter_related searchTerm listed = Inr []"
  by (induction listed) simp_all

lemma fetchRelatedMarkets_none:
  assumes "(\<exists>e. markets_listing env = Inl e) \<or>
           (\<exists>listed. markets_listing env = Inr listed \<and>
              (\<forall>m\<in>set listed. related searchTerm m = Inr False))"
  shows "fetchRelatedMarkets env searchTerm = ([MarketsRequest], [])"
  using assms
  by (auto simp add: fetchRelatedMarkets_def filter_related_none)

lemma calculateSentiment_empty:
  "calculateSentiment [] symb =
     Inr (neutral_on_error\<lparr>analysis := Some ''No prediction markets found for this asset''\<rparr>)"
  by (simp add: calculateSentiment_def neutral_on_error_def)

text \<open>Whatever exception ends the try block, the caller receives the neutral object.\<close>

lemma getSentimentData_catches:
  assumes "cache_read cache (''sentiment-'' @ symb) now_check 300000 = None"
    and "getSentimentData_try env now_store cache symb = (sent, Inl e, cache')"
  shows "getSentimentData env now_check now_store cache symb = (sent, neutral_on_error, cache')"
  using assms by (simp add: getSentimentData_def)

text \<open>
  Claim C6. When \<open>getSentimentData\<close> goes to the provider (its cache holds no fresh
  entry for the symbol) and the market-listing request fails, or the listing holds no
  market related to the search term, the call returns to its caller, after that one
  request, an object with score 50, confidence 0, trend NEUTRAL, zero sources and an
  empty market list.
\<close>

theorem C6_neutral_sentiment_default:
  assumes miss: "cache_read cache (''sentiment-'' @ symb) now_check 300000 = None"
    and none: "(\<exists>e. markets_listing env = Inl e) \<or>
               (\<exists>listed. markets_listing env = Inr listed \<and>
                  (\<forall>m\<in>set listed. related (mapSymbolToSearchTerm symb) m = Inr False))"
  shows "\<exists>r cache'. getSentimentData env now_check now_store cache symb =
                       ([MarketsRequest], r, cache') \<and>
           score r = 50 \<and> sentimentConfidence r = 0 \<and> sentimentTrend r = NEUTRAL \<and>
           sources r = 0 \<and> topMarkets r = []"
proof -
  let ?r = "neutral_on_error\<lparr>analysis := Some ''No prediction markets found for this asset''\<rparr>"
  let ?c = "cache(''sentiment-'' @ symb \<mapsto> \<lparr>data = ?r, timestamp = now_store\<rparr>)"
  have t: "getSentimentData_try env now_store cache symb = ([MarketsRequest], Inr ?r, ?c)"
    by (simp add: getSentimentData_try_def fetchRelatedMarkets_none[OF none]
        calculateSentiment_empty)
  have "getSentimentData env now_check now_store cache symb = ([MarketsRequest], ?r, ?c)"
    by (simp only: getSentimentData_def miss t option.case prod.case sum.case)
  then show ?thesis
    by (simp add: neutral_on_error_def)
qed

lemma unrelated_market_unrelated:
  "related (mapSymbolToSearchTerm ''BTC'') unrelated_market = Inr False"
  by code_simp

theorem C6_neutral_sentiment_default_witness:
  "(\<exists>r cache'. getSentimentData (candle_provider []) 0 1 Map.empty ''BTC'' =
                  ([MarketsRequest], r, cache') \<and>
      score r = 50 \<and> sentimentConfidence r = 0 \<and> sentimentTrend r = NEUTRAL \<and>
      sources r = 0 \<and> topMarkets r = []) \<and>
   (\<exists>r cache'. getSentimentData (listing_provider [unrelated_market]) 0 1 Map.empty ''BTC'' =
                  ([MarketsRequest], r, cache') \<and>
      score r = 50 \<and> sentimentConfidence r = 0 \<and> sentimentTrend r = NEUTRAL \<and>
      sources r = 0 \<and> topMarkets r = [])"
proof -
  have miss: "cache_read Map.empty (''sentiment-'' @ ''BTC'') 0 300000 =
                (None :: sentiment option)"
    by (simp add: cache_read_def)
  have failed:
    "(\<exists>e. markets_listing (candle_provider []) = Inl e) \<or>
     (\<exists>listed. markets_listing (candle_provider []) = Inr listed \<and>
        (\<forall>m\<in>set listed. related (mapSymbolToSearchTerm ''BTC'') m = Inr False))"
    by (simp add: candle_provider_def)
  have nomatch:
    "(\<exists>e. markets_listing (listing_provider [unrelated_market]) = Inl e) \<or>
     (\<exists>listed. markets_listing (listing_provider [unrelated_market]) = Inr listed \<and>
        (\<forall>m\<in>set listed. related (mapSymbolToSearchTerm ''BTC'') m = Inr False))"
    by (simp add: listing_provider_def unrelated_market_unrelated)
  show ?thesis
    using C6_neutral_sentiment_default[OF miss failed, of 1]
          C6_neutral_sentiment_default[OF miss nomatch, of 1]
    by blast
qed

text \<open>On markets with a question and a non-negative volume the loop ends normally, and
  each market adds at least 1 to the weight sum.\<close>

lemma accumulate_total:
  assumes "\<forall>m\<in>set ms. question m \<noteq> None \<and> 0 \<le> marketVolume m"
  shows "\<exists>t'. accumulate symb ms t = Inr t' \<and>
              totalVolume t + real (length ms) \<le> totalVolume t'"
  using assms
proof (induction ms arbitrary: t)
  case Nil
  then show ?case by simp
next
  case (Cons m ms)
  from Cons.prems obtain q where q: "question m = Some q" and v: "0 \<le> marketVolume m"
    by auto
  obtain direction sc where a: "analyzeMarketSentiment m symb = Inr (direction, sc)"
    using q by (auto simp add: analyzeMarketSentiment_def Let_def)
  define t1 where "t1 =
      \<lparr>totalScore = totalScore t + sc * (ln (marketVolume m + 1) + 1),
       totalVolume = totalVolume t + (ln (marketVolume m + 1) + 1),
       bullishMarkets = (if direction = BULLISH then bullishMarkets t + 1
                         else bullishMarkets t),
       bearishMarkets = (if direction = BEARISH then bearishMarkets t + 1
                         else bearishMarkets t)\<rparr>"
  have step: "accumulate symb (m # ms) t = accumulate symb ms t1"
    by (simp add: a t1_def Let_def)
  have w: "0 \<le> ln (marketVolume m + 1)"
    using v by simp
  from Cons.IH[of t1] Cons.prems obtain t' where
    t': "accumulate symb ms t1 = Inr t'" "totalVolume t1 + real (length ms) \<le> totalVolume t'"
    by auto
  have "totalVolume t + real (length (m # ms)) \<le> totalVolume t'"
    using t'(2) w by (simp add: t1_def)
  then show ?case
    using step t'(1) by simp
qed

lemma Math_round_bounds:
  assumes "10 \<le> x" "x \<le> 100"
  shows "10 \<le> Math_round x" "Math_round x \<le> 100"
  using assms unfolding Math_round_def by linarith+

text \<open>The weights, the weight sum and the confidence that \<open>calculateSentiment\<close> returns.\<close>

lemma calculateSentiment_confidence_range:
  assumes wf: "\<forall>m\<in>set ms. question m \<noteq> None \<and> 0 \<le> marketVolume m"
  shows "(\<forall>m\<in>set ms. 1 \<le> ln (marketVolume m + 1) + 1) \<and>
         (\<exists>r. calculateSentiment ms symb = Inr r \<and>
              (sentimentConfidence r = 0 \<longleftrightarrow> ms = []) \<and>
              (ms \<noteq> [] \<longrightarrow>
                 10 \<le> sentimentConfidence r \<and> sentimentConfidence r \<le> 100 \<and>
                 (\<exists>t. accumulate symb ms
                         \<lparr>totalScore = 0, totalVolume = 0,
                          bullishMarkets = 0, bearishMarkets = 0\<rparr> = Inr t \<and>
                      real (length ms) \<le> totalVolume t \<and> 0 < totalVolume t \<and>
                      sentimentConfidence r =
                        Math_round (min ((totalVolume t / real (length ms)) * 10) 100))))"
proof (cases "ms = []")
  case True
  then show ?thesis by (simp add: calculateSentiment_def)
next
  case False
  let ?z = "\<lparr>totalScore = 0, totalVolume = 0, bullishMarkets = 0, bearishMarkets = 0\<rparr>"
  have weights: "\<forall>m\<in>set ms. 1 \<le> ln (marketVolume m + 1) + 1"
    using wf by simp
  obtain t where t: "accumulate symb ms ?z = Inr t"
      and tv: "real (length ms) \<le> totalVolume t"
    using accumulate_total[OF wf, of symb ?z] by auto
  have n: "0 < real (length ms)"
    using False by simp
  then have pos: "0 < totalVolume t"
    using tv by linarith
  let ?conf = "min ((totalVolume t / real (length ms)) * 10) 100"
  have "10 \<le> (totalVolume t / real (length ms)) * 10"
    using tv n by (simp add: field_simps)
  then have c: "10 \<le> ?conf" "?conf \<le> 100"
    by (rule min.boundedI, simp) (rule min.cobounded2)
  obtain r where r: "calculateSentiment ms symb = Inr r"
      and rc: "sentimentConfidence r = Math_round ?conf"
    using False t by (simp add: calculateSentiment_def Let_def)
  have b: "10 \<le> sentimentConfidence r" "sentimentConfidence r \<le> 100"
    using Math_round_bounds[OF c] rc by simp_all
  show ?thesis
    using weights r rc b t tv pos False by auto
qed

lemma calculateSentiment_single:
  assumes "question m = Some q"
  shows "\<exists>r. calculateSentiment [m] symb = Inr r \<and>
           sentimentConfidence r =
             Math_round (min ((ln (marketVolume m + 1) + 1) * 10) 100)"
proof -
  obtain direction sc where a: "analyzeMarketSentiment m symb = Inr (direction, sc)"
    using assms by (auto simp add: analyzeMarketSentiment_def Let_def)
  show ?thesis
    by (simp add: calculateSentiment_def a Let_def)
qed

lemma weight_of_negative_volume: "ln (- (1 / 2) + 1 :: real) + 1 \<le> 1 / 2"
  using ln_le_minus_one[of "1 / 2 :: real"] by simp

text \<open>
  Claim C10, as stated, is about every non-empty matched market set. A market whose
  detail endpoint reports the volume \<open>-1/2\<close> is passed through by \<open>volume24h || 0\<close>; its
  weight \<open>ln (volume + 1) + 1\<close> is below 1, and \<open>calculateSentiment\<close> on it alone returns a
  confidence below 10.
\<close>

theorem C10_negative_volume_low_confidence:
  "ln (marketVolume negative_volume_market + 1) + 1 < 1 \<and>
   \<not> isl (calculateSentiment [negative_volume_market] ''BTC'') \<and>
   sentimentConfidence (projr (calculateSentiment [negative_volume_market] ''BTC'')) < 10"
proof -
  have w: "ln (marketVolume negative_volume_market + 1) + 1 \<le> 1 / 2"
    using weight_of_negative_volume by (simp add: negative_volume_market_def)
  obtain r where r: "calculateSentiment [negative_volume_market] ''BTC'' = Inr r"
    and c: "sentimentConfidence r =
      Math_round (min ((ln (marketVolume negative_volume_market + 1) + 1) * 10) 100)"
    using calculateSentiment_single[of negative_volume_market
            "''Will Bitcoin reach 100000?''" "''BTC''"]
    by (auto simp add: negative_volume_market_def)
  have "min ((ln (marketVolume negative_volume_market + 1) + 1) * 10) 100 \<le> 5"
    using w by (simp add: min_def)
  then have "sentimentConfidence r < 10"
    unfolding c Math_round_def by linarith
  then show ?thesis
    using w r by simp
qed

text \<open>
  Claim C10, amended. Take a matched market set (each market has a question) whose
  volumes are all non-negative. Every weight \<open>ln (volume + 1) + 1\<close> is at least 1, and
  \<open>calculateSentiment\<close> returns. On a non-empty set the weight sum is at least the number
  of markets, hence positive, so the division of the weighted average is defined, and the
  returned confidence, the rounding of \<open>min ((sum / count) * 10) 100\<close>, lies between 10
  and 100. The returned confidence is 0 exactly when the set is empty.
\<close>

theorem C10_confidence_range:
  assumes wf: "\<forall>m\<in>set ms. question m \<noteq> None \<and> 0 \<le> marketVolume m"
  shows "(\<forall>m\<in>set ms. 1 \<le> ln (marketVolume m + 1) + 1) \<and>
         (\<exists>r. calculateSentiment ms symb = Inr r \<and>
              (sentimentConfidence r = 0 \<longleftrightarrow> ms = []) \<and>
              (ms \<noteq> [] \<longrightarrow>
                 10 \<le> sentimentConfidence r \<and> sentimentConfidence r \<le> 100 \<and>
                 (\<exists>t. accumulate symb ms
                         \<lparr>totalScore = 0, totalVolume = 0,
                          bullishMarkets = 0, bearishMarkets = 0\<rparr> = Inr t \<and>
                      real (length ms) \<le> totalVolume t \<and> 0 < totalVolume t \<and>
                      sentimentConfidence r =
                        Math_round (min ((totalVolume t / real (length ms)) * 10) 100))))"
  using wf by (rule calculateSentiment_confidence_range)

theorem C10_confidence_range_witness:
  "question quiet_market \<noteq> None \<and> 0 \<le> marketVolume quiet_market \<and>
   (\<exists>r. calculateSentiment [quiet_market] ''BTC'' = Inr r \<and>
      10 \<le> sentimentConfidence r \<and> sentimentConfidence r \<le> 100) \<and>
   (\<exists>r. calculateSentiment [] ''BTC'' = Inr r \<and> sentimentConfidence r = 0)"
proof -
  have wf: "\<forall>m\<in>set [quiet_market]. question m \<noteq> None \<and> 0 \<le> marketVolume m"
    by (simp add: quiet_market_def)
  have wf0: "\<forall>m\<in>set ([] :: market list). question m \<noteq> None \<and> 0 \<le> marketVolume m"
    by simp
  have ne: "[quiet_market] \<noteq> []"
    by simp
  from C10_confidence_range[OF wf, of "''BTC''"] ne
  have one: "\<exists>r. calculateSentiment [quiet_market] ''BTC'' = Inr r \<and>
      10 \<le> sentimentConfidence r \<and> sentimentConfidence r \<le> 100"
    by blast
  from C10_confidence_range[OF wf0, of "''BTC''"]
  have none: "\<exists>r. calculateSentiment [] ''BTC'' = Inr r \<and> sentimentConfidence r = 0"
    by blast
  show ?thesis
    using wf one none by simp
qed

text \<open>The markets that \<open>fetchRelatedMarkets\<close> yields have a question, and a non-negative
  volume when the detail endpoint reports none that is negative.\<close>

lemma filter_related_questions:
  "filter_related searchTerm listed = Inr ms \<Longrightarrow> \<forall>m\<in>set ms. question m \<noteq> None"
proof (induction listed arbitrary: ms)
  case Nil
  then show ?case by simp
next
  case (Cons m listed)
  then show ?case
    by (auto simp add: related_def split: sum.splits option.splits if_splits)
qed

lemma enrich_fields:
  "question (snd (enrich env m)) = question m"
  "marketVolume (snd (enrich env m)) =
     (case market_details env (market_id m) of
        Inl e \<Rightarrow> 0
      | Inr d \<Rightarrow> or_zero (detail_volume24h d))"
  by (simp_all add: enrich_def getMarketPrice_def raw_market.defs split: sum.splits)

lemma fetchRelatedMarkets_wellformed:
  assumes "\<forall>marketId d v. market_details env marketId = Inr d \<longrightarrow>
             detail_volume24h d = Some v \<longrightarrow> 0 \<le> v"
  shows "\<forall>m\<in>set (snd (fetchRelatedMarkets env searchTerm)).
           question m \<noteq> None \<and> 0 \<le> marketVolume m"
proof -
  have vol: "0 \<le> marketVolume (snd (enrich env m))" for m
    using assms
    by (auto simp add: enrich_fields(2) or_zero_def split: sum.splits option.splits)
  show ?thesis
    using filter_related_questions[of searchTerm] vol
    by (auto simp add: fetchRelatedMarkets_def Let_def enrich_fields(1) split: sum.splits)
qed

text \<open>When \<open>getSentimentData\<close> goes to the provider, the confidence it returns is 0
  exactly when \<open>fetchRelatedMarkets\<close> came back empty: the listing failed, the filter
  threw, or no market was related.\<close>

lemma getSentimentData_confidence_zero:
  assumes miss: "cache_read cache (''sentiment-'' @ symb) now_check 300000 = None"
    and vols: "\<forall>marketId d v. market_details env marketId = Inr d \<longrightarrow>
                 detail_volume24h d = Some v \<longrightarrow> 0 \<le> v"
  shows "sentimentConfidence
           (fst (snd (getSentimentData env now_check now_store cache symb))) = 0
         \<longleftrightarrow> snd (fetchRelatedMarkets env (mapSymbolToSearchTerm symb)) = []"
proof -
  obtain sent ms where fr: "fetchRelatedMarkets env (mapSymbolToSearchTerm symb) = (sent, ms)"
    by (cases "fetchRelatedMarkets env (mapSymbolToSearchTerm symb)")
  have wf: "\<forall>m\<in>set ms. question m \<noteq> None \<and> 0 \<le> marketVolume m"
    using fetchRelatedMarkets_wellformed[OF vols, of "mapSymbolToSearchTerm symb"]
    by (simp add: fr)
  obtain r where r: "calculateSentiment ms symb = Inr r"
      and z: "sentimentConfidence r = 0 \<longleftrightarrow> ms = []"
    using calculateSentiment_confidence_range[OF wf] by blast
  let ?c = "cache(''sentiment-'' @ symb \<mapsto> \<lparr>data = r, timestamp = now_store\<rparr>)"
  have t: "getSentimentData_try env now_store cache symb = (sent, Inr r, ?c)"
    by (simp add: getSentimentData_try_def fr r)
  have "getSentimentData env now_check now_store cache symb = (sent, r, ?c)"
    by (simp only: getSentimentData_def miss t option.case prod.case sum.case)
  then show ?thesis
    using z by (simp add: fr)
qed

text \<open>With prices between 0 and 1 and non-negative volumes no per-market score is below
  50, so the weighted score never is: the trend BEARISH, given to a weighted score below
  40, is never returned.\<close>

lemma accumulate_scores:
  assumes "\<forall>m\<in>set ms. question m \<noteq> None \<and> 0 \<le> marketVolume m \<and>
                       0 \<le> price m \<and> price m \<le> 1"
  shows "\<exists>t'. accumulate symb ms t = Inr t' \<and>
              totalVolume t \<le> totalVolume t' \<and>
              totalScore t - 50 * totalVolume t \<le> totalScore t' - 50 * totalVolume t'"
  using assms
proof (induction ms arbitrary: t)
  case Nil
  then show ?case by simp
next
  case (Cons m ms)
  from Cons.prems obtain q where q: "question m = Some q" and v: "0 \<le> marketVolume m"
    and p: "0 \<le> price m" "price m \<le> 1"
    by auto
  obtain direction sc where a: "analyzeMarketSentiment m symb = Inr (direction, sc)"
    and sc: "50 \<le> sc"
    using analyzeMarketSentiment_score[OF q, of symb] p by auto
  define w where "w = ln (marketVolume m + 1) + 1"
  have w: "0 \<le> w"
    using v by (simp add: w_def add_nonneg_nonneg)
  define t1 where "t1 =
      \<lparr>totalScore = totalScore t + sc * w,
       totalVolume = totalVolume t + w,
       bullishMarkets = (if direction = BULLISH then bullishMarkets t + 1
                         else bullishMarkets t),
       bearishMarkets = (if direction = BEARISH then bearishMarkets t + 1
                         else bearishMarkets t)\<rparr>"
  have step: "accumulate symb (m # ms) t = accumulate symb ms t1"
    by (simp add: a t1_def w_def Let_def)
  from Cons.IH[of t1] Cons.prems obtain t' where
    t': "accumulate symb ms t1 = Inr t'" "totalVolume t1 \<le> totalVolume t'"
       "totalScore t1 - 50 * totalVolume t1 \<le> totalScore t' - 50 * totalVolume t'"
    by auto
  have "50 * w \<le> sc * w"
    using sc w by (rule mult_right_mono)
  then have "totalScore t - 50 * totalVolume t \<le> totalScore t1 - 50 * totalVolume t1"
    by (simp add: t1_def algebra_simps)
  moreover have "totalVolume t \<le> totalVolume t1"
    using w by (simp add: t1_def)
  ultimately show ?case
    using step t' by auto
qed

lemma sentimentTrend_never_bearish:
  assumes wf: "\<forall>m\<in>set ms. question m \<noteq> None \<and> 0 \<le> marketVolume m \<and>
                           0 \<le> price m \<and> price m \<le> 1"
  shows "\<exists>r. calculateSentiment ms symb = Inr r \<and>
             sentimentTrend r \<noteq> BEARISH \<and> 50 \<le> score r"
proof (cases "ms = []")
  case True
  then show ?thesis by (simp add: calculateSentiment_def)
next
  case False
  let ?z = "\<lparr>totalScore = 0, totalVolume = 0, bullishMarkets = 0, bearishMarkets = 0\<rparr>"
  have wf': "\<forall>m\<in>set ms. question m \<noteq> None \<and> 0 \<le> marketVolume m"
    using wf by blast
  obtain t where t: "accumulate symb ms ?z = Inr t"
    and s: "totalScore ?z - 50 * totalVolume ?z \<le> totalScore t - 50 * totalVolume t"
    using accumulate_scores[OF wf, of symb ?z] by blast
  obtain t2 where t2: "accumulate symb ms ?z = Inr t2"
    and tv: "totalVolume ?z + real (length ms) \<le> totalVolume t2"
    using accumulate_total[OF wf', of symb ?z] by blast
  have n: "0 < real (length ms)"
    using False by simp
  have "t2 = t"
    using t t2 by simp
  then have "real (length ms) \<le> totalVolume t"
    using tv by simp
  then have pos: "0 < totalVolume t"
    using n by linarith
  have "50 * totalVolume t \<le> totalScore t"
    using s by simp
  then have ws: "50 \<le> totalScore t / totalVolume t"
    using pos by (simp add: le_divide_eq)
  then have "50 \<le> Math_round (totalScore t / totalVolume t)"
    unfolding Math_round_def by linarith
  then show ?thesis
    using False t ws by (simp add: calculateSentiment_def Let_def)
qed

end
